theory Spec2Isabelle
  imports Main "HOL-Library.Word"
begin

unbundle bit_operations_syntax

section \<open>Bytes and integers on the wire\<close>

text \<open>
  Go's \<open>int16\<close>, \<open>int32\<close> and \<open>oid.Oid\<close> (an \<open>uint32\<close>) are words of that
  width; the conversions \<open>int16(len(columns))\<close> and \<open>int32(len(bb))\<close> keep the
  low bits, as \<open>of_nat\<close> does.
\<close>

type_synonym byte = "8 word"
type_synonym int16 = "16 word"
type_synonym int32 = "32 word"

text \<open>
  Modelled from the spec: the big-endian integer encoding of the frame codec
  (\<open>internal/buffer\<close> is not among the sources; "Integer encoding is big-endian
  throughout").
\<close>

definition be16 :: "int16 \<Rightarrow> byte list" where
  "be16 x = [ucast (drop_bit 8 x), ucast x]"

text \<open>Modelled from the spec: the same encoding for a 32-bit integer.\<close>

definition be32 :: "int32 \<Rightarrow> byte list" where
  "be32 x = [ucast (drop_bit 24 x), ucast (drop_bit 16 x), ucast (drop_bit 8 x), ucast x]"

text \<open>The bytes of a Go string.\<close>

definition bytes_of :: "string \<Rightarrow> byte list" where
  "bytes_of s = map (\<lambda>c. of_nat (of_char c)) s"

section \<open>Errors\<close>

text \<open>
  Every error value the modelled code returns. \<open>UnexpectedColumns\<close> is the
  \<open>fmt.Errorf("unexpected columns, ...")\<close> of \<open>Columns.Write\<close> (the spec's
  LogicalError), \<open>UnknownDataType\<close> the \<open>fmt.Errorf("unknown data type: ...")\<close> of
  \<open>Column.Write\<close> (the spec's UnsupportedType), \<open>MissingConnInfo\<close> its
  \<open>errors.New("postgres connection info has not been defined ...")\<close>.
  \<open>Canceled\<close> and \<open>DeadlineExceeded\<close> are the two values of \<open>ctx.Err()\<close>;
  \<open>CodecError\<close> is an error of a type codec, \<open>TransportError\<close> one of the
  underlying stream, \<open>InvalidOption\<close> one of a server option, \<open>Panic\<close> a Go
  run-time panic (index out of range, call of a nil function).
\<close>

datatype error =
    Canceled
  | DeadlineExceeded
  | MissingConnInfo
  | UnknownDataType
  | UnexpectedColumns nat nat
  | CodecError string
  | TransportError string
  | InvalidOption string
  | Panic string

section \<open>The frame writer\<close>

text \<open>
  Modelled from the spec: \<open>buffer.Writer\<close> (\<open>internal/buffer\<close> is not among the
  sources; \<open>row.go\<close> only calls it). The writer holds the type and the payload
  of the message under construction, the bytes handed to the underlying stream
  so far, and the error that stream answers a write with, if it is broken.
\<close>

record Writer =
  frame_type :: byte
  frame :: "byte list"
  stream :: "byte list"
  stream_err :: "error option"

text \<open>
  Modelled from the spec: a message on the wire,
  \<open><type:u8><length:i32 including length field><payload>\<close>.
\<close>

definition message :: "byte \<Rightarrow> byte list \<Rightarrow> byte list" where
  "message t payload = t # be32 (of_nat (length payload + 4)) @ payload"

text \<open>
  Modelled from the spec: \<open>Writer.Start\<close> begins a message of the given type; a
  message begun before and never ended is dropped.
\<close>

definition Start :: "Writer \<Rightarrow> byte \<Rightarrow> Writer" where
  "Start writer t = writer\<lparr>frame_type := t, frame := []\<rparr>"

text \<open>
  Modelled from the spec: \<open>Writer.AddInt16\<close> appends a big-endian 16-bit integer
  to the payload.
\<close>

definition AddInt16 :: "Writer \<Rightarrow> int16 \<Rightarrow> Writer" where
  "AddInt16 writer i = writer\<lparr>frame := frame writer @ be16 i\<rparr>"

text \<open>Modelled from the spec: \<open>Writer.AddInt32\<close>, the same for 32 bits.\<close>

definition AddInt32 :: "Writer \<Rightarrow> int32 \<Rightarrow> Writer" where
  "AddInt32 writer i = writer\<lparr>frame := frame writer @ be32 i\<rparr>"

text \<open>Modelled from the spec: \<open>Writer.AddString\<close> appends the bytes of a string.\<close>

definition AddString :: "Writer \<Rightarrow> string \<Rightarrow> Writer" where
  "AddString writer s = writer\<lparr>frame := frame writer @ bytes_of s\<rparr>"

text \<open>
  Modelled from the spec: \<open>Writer.AddNullTerminate\<close> appends the zero byte that
  ends a string ("strings are C-style null-terminated").
\<close>

definition AddNullTerminate :: "Writer \<Rightarrow> Writer" where
  "AddNullTerminate writer = writer\<lparr>frame := frame writer @ [0]\<rparr>"

text \<open>Modelled from the spec: \<open>Writer.AddBytes\<close> appends raw bytes.\<close>

definition AddBytes :: "Writer \<Rightarrow> byte list \<Rightarrow> Writer" where
  "AddBytes writer bb = writer\<lparr>frame := frame writer @ bb\<rparr>"

text \<open>
  Modelled from the spec: \<open>Writer.End\<close> hands the finished message to the
  underlying stream and returns the stream's error, if it has one; either way
  the message under construction is gone.
\<close>

definition End :: "Writer \<Rightarrow> error option \<times> Writer" where
  "End writer =
     (case stream_err writer of
        Some e \<Rightarrow> (Some e, writer\<lparr>frame := []\<rparr>)
      | None \<Rightarrow>
          (None, writer\<lparr>stream := stream writer @ message (frame_type writer) (frame writer),
                         frame := []\<rparr>))"

text \<open>
  Modelled from the spec: the message types of \<open>internal/types\<close> (not among the
  sources) are the type bytes of the protocol; \<open>T\<close> is a RowDescription.
\<close>

definition ServerRowDescription :: byte where
  "ServerRowDescription = 0x54"

text \<open>Modelled from the spec: the message type \<open>D\<close> of a DataRow.\<close>

definition ServerDataRow :: byte where
  "ServerDataRow = 0x44"

section \<open>Host values, type codecs and the context\<close>

text \<open>The host values \<open>src any\<close> handed to \<open>Column.Write\<close>; \<open>GoNil\<close> is \<open>nil\<close>.\<close>

datatype any_value = GoNil | GoString string | GoBool bool | GoInt int

type_synonym FormatCode = int16

text \<open>
  A registered \<open>pgtype.DataType\<close>, with the value type \<open>'v\<close> of the codec.
  The codecs belong to an external library and \<open>FormatCode.Encoder\<close> is declared
  outside \<open>row.go\<close>, so both are parameters here: \<open>Value_Set typed src\<close> is
  \<open>typed.Value.Set(src)\<close>, which fails or leaves the typed value that the encoder
  reads, and \<open>Encoder typed format v\<close> is \<open>column.Format.Encoder(typed)(ci, nil)\<close>
  on that value.
\<close>

record 'v DataType =
  Value_Set :: "any_value \<Rightarrow> error + 'v"
  Encoder :: "FormatCode \<Rightarrow> 'v \<Rightarrow> error + byte list"

type_synonym 'v ConnInfo = "int32 \<Rightarrow> 'v DataType option"

definition DataTypeForOID :: "'v ConnInfo \<Rightarrow> int32 \<Rightarrow> 'v DataType option" where
  "DataTypeForOID ci oid = ci oid"

text \<open>
  The \<open>context.Context\<close> as far as the code reads it: \<open>Err\<close> is \<open>ctx.Err()\<close>,
  \<open>TypeInfo\<close> the connection info \<open>TypeInfo(ctx)\<close> (\<open>None\<close> for \<open>nil\<close>),
  \<open>Values\<close> the values attached with \<open>context.WithValue\<close>.
\<close>

record 'v Context =
  Err :: "error option"
  TypeInfo :: "'v ConnInfo option"
  Values :: "(string \<times> string) list"

section \<open>Columns (row.go)\<close>

record Column =
  Table :: int32
  Name :: string
  AttrNo :: int16
  Oid :: int32
  Width :: int16
  TypeModifier :: int32
  Format :: FormatCode

type_synonym Columns = "Column list"

definition Column_Define :: "Column \<Rightarrow> 'v Context \<Rightarrow> Writer \<Rightarrow> Writer" where
  "Column_Define column ctx writer =
     (let writer = AddString writer (Name column);
          writer = AddNullTerminate writer;
          writer = AddInt32 writer (Table column);
          writer = AddInt16 writer (AttrNo column);
          writer = AddInt32 writer (Oid column);
          writer = AddInt16 writer (Width column);
          writer = AddInt32 writer (- 1);
          writer = AddInt16 writer (Format column)
      in writer)"

definition Columns_Define :: "Columns \<Rightarrow> 'v Context \<Rightarrow> Writer \<Rightarrow> error option \<times> Writer" where
  "Columns_Define columns ctx writer =
     (if length columns = 0 then (None, writer)
      else
        let writer = Start writer ServerRowDescription;
            writer = AddInt16 writer (of_nat (length columns));
            writer = foldl (\<lambda>writer column. Column_Define column ctx writer) writer columns
        in End writer)"

definition Column_Write :: "Column \<Rightarrow> 'v Context \<Rightarrow> Writer \<Rightarrow> any_value \<Rightarrow> error option \<times> Writer" where
  "Column_Write column ctx writer src =
     (case Err ctx of
        Some e \<Rightarrow> (Some e, writer)
      | None \<Rightarrow>
          (case TypeInfo ctx of
             None \<Rightarrow> (Some MissingConnInfo, writer)
           | Some ci \<Rightarrow>
               (case DataTypeForOID ci (Oid column) of
                  None \<Rightarrow> (Some UnknownDataType, writer)
                | Some typed \<Rightarrow>
                    (case Value_Set typed src of
                       Inl e \<Rightarrow> (Some e, writer)
                     | Inr v \<Rightarrow>
                         (case Encoder typed (Format column) v of
                            Inl e \<Rightarrow> (Some e, writer)
                          | Inr bb \<Rightarrow>
                              (let length = (if src = GoNil then - 1 else of_nat (length bb));
                                   writer = AddInt32 writer length;
                                   writer = AddBytes writer bb
                               in (None, writer)))))))"

text \<open>
  The loop of \<open>Columns.Write\<close> over \<open>columns\<close>, reading \<open>srcs[index]\<close>; it returns
  at the first column that fails. Reading past the end of \<open>srcs\<close> panics in Go
  (the length check of \<open>Columns.Write\<close> excludes it).
\<close>

fun Write_loop :: "Columns \<Rightarrow> 'v Context \<Rightarrow> Writer \<Rightarrow> any_value list \<Rightarrow> error option \<times> Writer" where
  "Write_loop [] ctx writer srcs = (None, writer)"
| "Write_loop (column # columns) ctx writer [] = (Some (Panic ''index out of range''), writer)"
| "Write_loop (column # columns) ctx writer (src # srcs) =
     (case Column_Write column ctx writer src of
        (Some err, writer) \<Rightarrow> (Some err, writer)
      | (None, writer) \<Rightarrow> Write_loop columns ctx writer srcs)"

definition Columns_Write :: "Columns \<Rightarrow> 'v Context \<Rightarrow> Writer \<Rightarrow> any_value list \<Rightarrow> error option \<times> Writer" where
  "Columns_Write columns ctx writer srcs =
     (if length srcs \<noteq> length columns
      then (Some (UnexpectedColumns (length columns) (length srcs)), writer)
      else
        let writer = Start writer ServerDataRow;
            writer = AddInt16 writer (of_nat (length columns))
        in (case Write_loop columns ctx writer srcs of
              (Some err, writer) \<Rightarrow> (Some err, writer)
            | (None, writer) \<Rightarrow> End writer))"

section \<open>Server options (options.go, seen through options_test.go)\<close>

text \<open>
  \<open>context.WithValue\<close> and \<open>ctx.Value\<close>, as \<open>TestSessionHandler\<close> uses them.
\<close>

definition WithValue :: "'v Context \<Rightarrow> string \<Rightarrow> string \<Rightarrow> 'v Context" where
  "WithValue ctx key val = ctx\<lparr>Values := (key, val) # Values ctx\<rparr>"

definition Value :: "'v Context \<Rightarrow> string \<Rightarrow> string option" where
  "Value ctx key = map_of (Values ctx) key"

text \<open>
  The callback types of the option functions, as the tests write them:
  a session handler is \<open>func(ctx) (context.Context, error)\<close>, a prepared
  statement \<open>func(ctx, writer, parameters) error\<close>, a parse function
  \<open>func(ctx, query) (PreparedStatementFn, []oid.Oid, error)\<close> and a simple query
  handler \<open>func(ctx, query, writer, parameters) error\<close>. A function value that
  may be \<open>nil\<close> is an \<open>option\<close>.
\<close>

type_synonym 'v SessionHandler = "'v Context \<Rightarrow> error + 'v Context"

type_synonym 'v PreparedStatementFn =
  "'v Context \<Rightarrow> Writer \<Rightarrow> string list \<Rightarrow> error option \<times> Writer"

type_synonym 'v ParseFn =
  "'v Context \<Rightarrow> string \<Rightarrow> 'v PreparedStatementFn option \<times> int32 list \<times> error option"

type_synonym 'v SimpleQueryFn =
  "'v Context \<Rightarrow> string \<Rightarrow> Writer \<Rightarrow> string list \<Rightarrow> error option \<times> Writer"

text \<open>
  The fields of \<open>Server\<close> that the tests read: \<open>srv.Parse\<close> and \<open>srv.Session\<close>.
  \<open>zero_Server\<close> is the \<open>&Server{}\<close> of the tests.
\<close>

record 'v Server =
  Parse :: "'v ParseFn option"
  Session :: "'v SessionHandler option"

type_synonym 'v OptionFn = "'v Server \<Rightarrow> error + 'v Server"

definition zero_Server :: "'v Server" where
  "zero_Server = \<lparr>Parse = None, Session = None\<rparr>"

text \<open>
  Modelled from the spec: the option functions \<open>Parse\<close>, \<open>SimpleQuery\<close> and
  \<open>Session\<close> and \<open>NewServer\<close> (\<open>options.go\<close> is not among the sources; its
  test \<open>options_test.go\<close> is, and where the test and the spec differ the test
  is followed). In short:
  \<^item> \<open>Parse(fn)\<close> and \<open>SimpleQuery(fn)\<close> both set the one parse function of
    the server (\<open>TestSimpleQueryParameters\<close> reads the synthesised one from
    \<open>srv.Parse\<close>); the two together are the invalid combination of
    \<open>TestInvalidOptions\<close>: either fails on a server that holds a parse function.
  \<^item> \<open>SimpleQuery(fn)\<close> synthesises a parse function that "wraps the same
    callback"; the statement it returns is never \<open>nil\<close>, also for
    \<open>SimpleQuery(nil)\<close> (\<open>TestSimpleQueryParameters\<close>), and calling it then
    panics. How the parameter OIDs are derived from the query
    (\<open>ParseParameters\<close>) is neither among the sources nor fixed by the spec, so
    that function is a parameter of the model.
  \<^item> \<open>Session(fn)\<close> chains: the handler stored before runs first and \<open>fn\<close>
    receives its context; an error of the earlier handler ends the chain.
  \<^item> \<open>NewServer\<close> applies the options in order to a server whose session
    handler returns the context unchanged (\<open>TestNilSessionHandler\<close>) and
    returns the first error of an option.
\<close>

text \<open>
  Modelled from the spec: the option \<open>Parse(fn)\<close>, which stores \<open>fn\<close> and fails
  on a server that holds a parse function already.
\<close>

definition Parse_option :: "'v ParseFn \<Rightarrow> 'v OptionFn" where
  "Parse_option fn srv =
     (if Parse srv \<noteq> None then Inl (InvalidOption ''parse function already set'')
      else Inr (srv\<lparr>Parse := Some fn\<rparr>))"

text \<open>
  Modelled from the spec: the statement of the synthesised parse function, which
  "wraps the same callback"; calling it when the callback is \<open>nil\<close> panics.
\<close>

definition simple_statement :: "'v SimpleQueryFn option \<Rightarrow> string \<Rightarrow> 'v PreparedStatementFn" where
  "simple_statement fn query ctx writer parameters =
     (case fn of
        None \<Rightarrow> (Some (Panic ''nil function''), writer)
      | Some f \<Rightarrow> f ctx query writer parameters)"

text \<open>
  Modelled from the spec: the option \<open>SimpleQuery(fn)\<close>; after \<open>Parse\<close> it fails
  (\<open>TestInvalidOptions\<close>), otherwise it stores the synthesised parse function.
  \<open>parse_parameters\<close> stands for \<open>ParseParameters\<close>, the derivation of the
  parameter OIDs from the query.
\<close>

definition SimpleQuery_option ::
  "(string \<Rightarrow> int32 list) \<Rightarrow> 'v SimpleQueryFn option \<Rightarrow> 'v OptionFn" where
  "SimpleQuery_option parse_parameters fn srv =
     (if Parse srv \<noteq> None then Inl (InvalidOption ''parse function already set'')
      else Inr (srv\<lparr>Parse :=
             Some (\<lambda>ctx query. (Some (simple_statement fn query), parse_parameters query, None))\<rparr>))"

text \<open>
  Modelled from the spec: two chained session handlers, "each receives the
  context from the previous one".
\<close>

definition chain_Session :: "'v SessionHandler \<Rightarrow> 'v SessionHandler \<Rightarrow> 'v SessionHandler" where
  "chain_Session first fn ctx = (case first ctx of Inl err \<Rightarrow> Inl err | Inr ctx' \<Rightarrow> fn ctx')"

text \<open>
  Modelled from the spec: the option \<open>Session(fn)\<close>, which chains \<open>fn\<close> after the
  handler the server holds, if it holds one.
\<close>

definition Session_option :: "'v SessionHandler \<Rightarrow> 'v OptionFn" where
  "Session_option fn srv =
     (case Session srv of
        None \<Rightarrow> Inr (srv\<lparr>Session := Some fn\<rparr>)
      | Some first \<Rightarrow> Inr (srv\<lparr>Session := Some (chain_Session first fn)\<rparr>))"

text \<open>
  Modelled from the spec: the loop of \<open>NewServer\<close> over its options, which stops
  at the first option that returns an error.
\<close>

fun apply_options :: "'v Server \<Rightarrow> 'v OptionFn list \<Rightarrow> error + 'v Server" where
  "apply_options srv [] = Inr srv"
| "apply_options srv (option # options) =
     (case option srv of Inl err \<Rightarrow> Inl err | Inr srv' \<Rightarrow> apply_options srv' options)"

text \<open>
  Modelled from the spec: \<open>NewServer(options...)\<close>, which starts from a server with
  no parse function and the session handler that returns its context
  (\<open>TestNilSessionHandler\<close>).
\<close>

definition NewServer :: "'v OptionFn list \<Rightarrow> error + 'v Server" where
  "NewServer options = apply_options \<lparr>Parse = None, Session = Some (\<lambda>ctx. Inr ctx)\<rparr> options"

text \<open>The calls \<open>srv.Session(ctx)\<close> and \<open>srv.Parse(ctx, query)\<close>; a \<open>nil\<close> field panics.\<close>

definition call_Session :: "'v Server \<Rightarrow> 'v Context \<Rightarrow> error + 'v Context" where
  "call_Session srv ctx =
     (case Session srv of None \<Rightarrow> Inl (Panic ''nil function'') | Some handler \<Rightarrow> handler ctx)"

definition call_Parse ::
  "'v Server \<Rightarrow> 'v Context \<Rightarrow> string \<Rightarrow> 'v PreparedStatementFn option \<times> int32 list \<times> error option" where
  "call_Parse srv ctx query =
     (case Parse srv of
        None \<Rightarrow> (None, [], Some (Panic ''nil function''))
      | Some parse \<Rightarrow> parse ctx query)"

text \<open>
  The sequential composition of session handlers \<open>f1, ..., fn\<close> on a context: each
  receives the context the previous one returned.
\<close>

fun compose_handlers :: "'v SessionHandler list \<Rightarrow> 'v Context \<Rightarrow> error + 'v Context" where
  "compose_handlers [] ctx = Inr ctx"
| "compose_handlers (f # fs) ctx =
     (case f ctx of Inl err \<Rightarrow> Inl err | Inr ctx' \<Rightarrow> compose_handlers fs ctx')"

section \<open>The layout of the messages, in the spec's words\<close>

text \<open>
  One column of a RowDescription:
  \<open>name\0 table:i32 attr:i16 oid:i32 width:i16 type_mod:i32 format:i16\<close>, with
  the value of the \<open>type_mod\<close> field given apart.
\<close>

definition row_description_entry :: "Column \<Rightarrow> int32 \<Rightarrow> byte list" where
  "row_description_entry column type_mod =
     bytes_of (Name column) @ [0] @ be32 (Table column) @ be16 (AttrNo column) @
     be32 (Oid column) @ be16 (Width column) @ be32 type_mod @ be16 (Format column)"

section \<open>Concrete inputs\<close>

text \<open>
  The column of \<open>TestServerNULLValues\<close> (\<open>oid.T_text\<close> is 25, \<open>TextFormat\<close> is 0),
  a writer on a working stream, and two registries for the OID 25: one holds a
  codec in the shape of the library's text type (\<open>nil\<close> becomes the null status,
  which encodes to no bytes), the other a codec that accepts no \<open>nil\<close>.
\<close>

definition name_column :: Column where
  "name_column =
     \<lparr>Table = 0, Name = ''name'', AttrNo = 0, Oid = 25, Width = 256, TypeModifier = 0, Format = 0\<rparr>"

definition empty_writer :: Writer where
  "empty_writer = \<lparr>frame_type = 0, frame = [], stream = [], stream_err = None\<rparr>"

definition text_codec :: "string option DataType" where
  "text_codec =
     \<lparr>Value_Set = (\<lambda>src. case src of
                       GoNil \<Rightarrow> Inr None
                     | GoString s \<Rightarrow> Inr (Some s)
                     | _ \<Rightarrow> Inl (CodecError ''cannot convert to Text'')),
      Encoder = (\<lambda>format v. case v of None \<Rightarrow> Inr [] | Some s \<Rightarrow> Inr (bytes_of s))\<rparr>"

definition strict_codec :: "string option DataType" where
  "strict_codec =
     \<lparr>Value_Set = (\<lambda>src. case src of
                       GoString s \<Rightarrow> Inr (Some s)
                     | _ \<Rightarrow> Inl (CodecError ''cannot convert to Text'')),
      Encoder = (\<lambda>format v. case v of None \<Rightarrow> Inr [] | Some s \<Rightarrow> Inr (bytes_of s))\<rparr>"

definition text_ctx :: "string option Context" where
  "text_ctx =
     \<lparr>Err = None, TypeInfo = Some (\<lambda>oid. if oid = 25 then Some text_codec else None), Values = []\<rparr>"

definition strict_ctx :: "string option Context" where
  "strict_ctx =
     \<lparr>Err = None, TypeInfo = Some (\<lambda>oid. if oid = 25 then Some strict_codec else None), Values = []\<rparr>"

definition cancelled_ctx :: "string option Context" where
  "cancelled_ctx = text_ctx\<lparr>Err := Some Canceled\<rparr>"

text \<open>The two callbacks of \<open>TestInvalidOptions\<close>.\<close>

definition test_parse :: "string option ParseFn" where
  "test_parse ctx query = (None, [], None)"

definition test_simple_query :: "string option SimpleQueryFn" where
  "test_simple_query ctx query writer parameters = (None, writer)"

definition unencoded_codec :: "string option DataType" where
  "unencoded_codec =
     text_codec\<lparr>Encoder := (\<lambda>format v. Inl (CodecError ''no encoder for the format''))\<rparr>"

definition unencoded_ctx :: "string option Context" where
  "unencoded_ctx =
     text_ctx\<lparr>TypeInfo := Some (\<lambda>oid. if oid = 25 then Some unencoded_codec else None)\<rparr>"

section \<open>Auxiliary facts\<close>

lemma be32_minus_one: "be32 (- 1) = [255, 255, 255, 255]"
  by code_simp

lemma be32_five: "be32 5 = [0, 0, 0, 5]"
  by code_simp

lemma length_bytes_of: "length (bytes_of s) = length s"
  by (simp add: bytes_of_def)

lemma RowDescription_name_bytes:
  "message ServerRowDescription (be16 1 @ row_description_entry name_column (- 1)) =
     [84, 0, 0, 0, 29, 0, 1, 110, 97, 109, 101, 0, 0, 0, 0, 0, 0, 0, 0, 0, 0, 25, 1, 0,
      255, 255, 255, 255, 0, 0]"
  by code_simp

lemma DataRow_null_bytes:
  "message ServerDataRow (be16 1 @ be32 (- 1)) = [68, 0, 0, 0, 10, 0, 1, 255, 255, 255, 255]"
  by code_simp

lemma End_ok:
  "stream_err writer = None \<Longrightarrow>
     End writer = (None, writer\<lparr>stream := stream writer @ message (frame_type writer) (frame writer),
                               frame := []\<rparr>)"
  by (simp add: End_def)

subsection \<open>Define\<close>

lemma Column_Define_eq:
  "Column_Define column ctx writer =
     writer\<lparr>frame := frame writer @ row_description_entry column (- 1)\<rparr>"
  by (simp add: Column_Define_def row_description_entry_def AddString_def AddNullTerminate_def
        AddInt32_def AddInt16_def)

lemma foldl_Column_Define:
  "foldl (\<lambda>writer column. Column_Define column ctx writer) writer columns =
     writer\<lparr>frame := frame writer @ concat (map (\<lambda>column. row_description_entry column (- 1)) columns)\<rparr>"
  by (induction columns arbitrary: writer) (simp_all add: Column_Define_eq)

lemma Columns_Define_End:
  assumes "columns \<noteq> []"
  shows "Columns_Define columns ctx writer =
           End (writer\<lparr>frame_type := ServerRowDescription,
                  frame := be16 (of_nat (length columns)) @
                           concat (map (\<lambda>column. row_description_entry column (- 1)) columns)\<rparr>)"
  using assms
  by (simp add: Columns_Define_def foldl_Column_Define Start_def AddInt16_def Let_def)

subsection \<open>Write\<close>

text \<open>
  \<open>Column.Write\<close> and the loop over the columns only ever append to the payload of
  the message under construction: type, stream and stream error stay as they are.
\<close>

lemma Column_Write_frame:
  "Column_Write column ctx writer src = (r, writer') \<Longrightarrow>
     \<exists>bs. writer' = writer\<lparr>frame := frame writer @ bs\<rparr>"
  unfolding Column_Write_def AddInt32_def AddBytes_def Let_def
  by (auto split: option.splits sum.splits intro: exI [of _ "[]"])

lemma Write_loop_frame:
  "Write_loop columns ctx writer srcs = (r, writer') \<Longrightarrow>
     \<exists>bs. writer' = writer\<lparr>frame := frame writer @ bs\<rparr>"
proof (induction columns ctx writer srcs arbitrary: r writer' rule: Write_loop.induct)
  case (1 ctx writer srcs)
  then show ?case by (auto intro: exI [of _ "[]"])
next
  case (2 column columns ctx writer)
  then show ?case by (auto intro: exI [of _ "[]"])
next
  case (3 column columns ctx writer src srcs)
  obtain r1 w1 where cw: "Column_Write column ctx writer src = (r1, w1)"
    by (cases "Column_Write column ctx writer src")
  from Column_Write_frame [OF cw] obtain bs1 where w1: "w1 = writer\<lparr>frame := frame writer @ bs1\<rparr>"
    by blast
  show ?case
  proof (cases r1)
    case (Some err)
    with 3 cw w1 show ?thesis by auto
  next
    case None
    with 3 cw have "Write_loop columns ctx w1 srcs = (r, writer')" by simp
    from "3.IH" [OF cw [unfolded None, symmetric] _ this] None
    obtain bs2 where "writer' = w1\<lparr>frame := frame w1 @ bs2\<rparr>" by auto
    with w1 have "writer' = writer\<lparr>frame := frame writer @ (bs1 @ bs2)\<rparr>" by simp
    then show ?thesis by blast
  qed
qed

lemma Columns_Write_mismatch:
  "length srcs \<noteq> length columns \<Longrightarrow>
     Columns_Write columns ctx writer srcs =
       (Some (UnexpectedColumns (length columns) (length srcs)), writer)"
  by (simp add: Columns_Write_def)

lemma Columns_Write_stream:
  assumes "Columns_Write columns ctx writer srcs = (r, writer')"
  shows "(r = None \<longrightarrow> (\<exists>fields. stream writer' =
            stream writer @ message ServerDataRow (be16 (of_nat (length columns)) @ fields))) \<and>
         (r \<noteq> None \<longrightarrow> stream writer' = stream writer)"
proof (cases "length srcs \<noteq> length columns")
  case True
  with assms show ?thesis by (auto simp: Columns_Write_mismatch)
next
  case False
  define w0 where "w0 = AddInt16 (Start writer ServerDataRow) (of_nat (length columns))"
  obtain r1 w1 where loop: "Write_loop columns ctx w0 srcs = (r1, w1)"
    by (cases "Write_loop columns ctx w0 srcs")
  from Write_loop_frame [OF loop] obtain bs where w1: "w1 = w0\<lparr>frame := frame w0 @ bs\<rparr>"
    by blast
  have w0: "frame w0 = be16 (of_nat (length columns))" "stream w0 = stream writer"
    "frame_type w0 = ServerDataRow" "stream_err w0 = stream_err writer"
    by (simp_all add: w0_def AddInt16_def Start_def)
  show ?thesis
  proof (cases r1)
    case (Some err)
    with False loop assms have "r = Some err" "writer' = w1"
      by (simp_all add: Columns_Write_def Let_def w0_def [symmetric])
    with w1 w0 show ?thesis by simp
  next
    case None
    with False loop assms have e: "End w1 = (r, writer')"
      by (simp add: Columns_Write_def Let_def w0_def [symmetric])
    show ?thesis
    proof (cases "stream_err w1")
      case None
      with e w1 w0 show ?thesis by (auto simp: End_def)
    next
      case (Some err)
      with e w1 w0 show ?thesis by (auto simp: End_def)
    qed
  qed
qed

text \<open>
  Whether \<open>Column.Write\<close> fails does not depend on the writer, so a row whose
  values all encode is written to the end, and on a working stream \<open>End\<close>
  succeeds.
\<close>

lemma Column_Write_fst:
  "fst (Column_Write column ctx writer src) = fst (Column_Write column ctx writer' src)"
  by (simp add: Column_Write_def Let_def split: option.splits sum.splits)

lemma Write_loop_success:
  assumes "list_all2 (\<lambda>column src. fst (Column_Write column ctx w0 src) = None) columns srcs"
  shows "fst (Write_loop columns ctx writer srcs) = None"
  using assms
proof (induction columns srcs arbitrary: writer rule: list_all2_induct)
  case Nil
  show ?case by simp
next
  case (Cons column columns src srcs)
  from Cons.hyps(1) have "fst (Column_Write column ctx writer src) = None"
    by (simp add: Column_Write_fst [of column ctx writer src w0])
  then obtain w1 where "Column_Write column ctx writer src = (None, w1)"
    by (cases "Column_Write column ctx writer src") simp
  with Cons.IH [of w1] show ?case by simp
qed

lemma Columns_Write_success:
  assumes "list_all2 (\<lambda>column src. fst (Column_Write column ctx writer src) = None) columns srcs"
    and "stream_err writer = None"
  shows "fst (Columns_Write columns ctx writer srcs) = None"
proof -
  from assms(1) have len: "length srcs = length columns"
    by (simp add: list_all2_lengthD)
  define w0 where "w0 = AddInt16 (Start writer ServerDataRow) (of_nat (length columns))"
  obtain r1 w1 where loop: "Write_loop columns ctx w0 srcs = (r1, w1)"
    by (cases "Write_loop columns ctx w0 srcs")
  from Write_loop_success [OF assms(1), of w0] loop have r1: "r1 = None"
    by simp
  from Write_loop_frame [OF loop] obtain bs where "w1 = w0\<lparr>frame := frame w0 @ bs\<rparr>"
    by blast
  with assms(2) have "stream_err w1 = None"
    by (simp add: w0_def AddInt16_def Start_def)
  then have "fst (End w1) = None"
    by (simp add: End_def)
  with len loop r1 show ?thesis
    by (simp add: Columns_Write_def Let_def w0_def [symmetric])
qed

lemma Columns_Write_John:
  "Columns_Write [name_column] text_ctx empty_writer [GoString ''John''] =
     (None, empty_writer\<lparr>frame_type := ServerDataRow,
              stream := message ServerDataRow (be16 1 @ be32 4 @ bytes_of ''John'')\<rparr>)"
  by (simp add: length_bytes_of Columns_Write_def Column_Write_def text_ctx_def name_column_def
        empty_writer_def text_codec_def DataTypeForOID_def Start_def AddInt16_def AddInt32_def
        AddBytes_def End_def Let_def)

lemma Columns_Write_strict_nil:
  "Columns_Write [name_column] strict_ctx empty_writer [GoNil] =
     (Some (CodecError ''cannot convert to Text''),
      empty_writer\<lparr>frame_type := ServerDataRow, frame := be16 1\<rparr>)"
  by (simp add: Columns_Write_def Column_Write_def strict_ctx_def name_column_def empty_writer_def
        strict_codec_def DataTypeForOID_def Start_def AddInt16_def AddInt32_def AddBytes_def
        End_def Let_def)

subsection \<open>Option lists\<close>


lemma chain_compose:
  "foldl chain_Session h fs ctx =
     (case h ctx of Inl err \<Rightarrow> Inl err | Inr ctx' \<Rightarrow> compose_handlers fs ctx')"
proof (induction fs arbitrary: h)
  case Nil
  show ?case by (simp split: sum.splits)
next
  case (Cons f fs)
  have "foldl chain_Session h (f # fs) ctx =
          (case chain_Session h f ctx of Inl err \<Rightarrow> Inl err | Inr ctx' \<Rightarrow> compose_handlers fs ctx')"
    using Cons.IH [of "chain_Session h f"] by simp
  also have "\<dots> = (case h ctx of Inl err \<Rightarrow> Inl err | Inr ctx' \<Rightarrow> compose_handlers (f # fs) ctx')"
    by (simp add: chain_Session_def split: sum.splits)
  finally show ?case .
qed

lemma apply_Session_options:
  assumes "Session srv = Some h"
  shows "apply_options srv (map Session_option fs) =
           Inr (srv\<lparr>Session := Some (foldl chain_Session h fs)\<rparr>)"
  using assms
proof (induction fs arbitrary: srv h)
  case Nil
  then show ?case by simp
next
  case (Cons f fs)
  have "Session (srv\<lparr>Session := Some (chain_Session h f)\<rparr>) = Some (chain_Session h f)"
    by simp
  from Cons.IH [OF this] Cons.prems show ?case
    by (simp add: Session_option_def)
qed

subsection \<open>The tests of options_test.go, run on the model\<close>

lemma TestInvalidOptions:
  "isl (apply_options zero_Server
          [Parse_option test_parse, SimpleQuery_option parse_parameters (Some test_simple_query)])"
  by (simp add: zero_Server_def Parse_option_def SimpleQuery_option_def)

text \<open>
  Of \<open>TestSimpleQueryParameters\<close>, what does not depend on \<open>ParseParameters\<close>:
  no error and a statement that is not \<open>nil\<close>.
\<close>

lemma TestSimpleQueryParameters_statement:
  "call_Parse (projr (SimpleQuery_option parse_parameters None zero_Server)) ctx query =
     (Some (simple_statement None query), parse_parameters query, None)"
  by (simp add: SimpleQuery_option_def zero_Server_def call_Parse_def)

lemma TestNilSessionHandler:
  "\<exists>srv. NewServer [] = Inr srv \<and> call_Session srv text_ctx = Inr text_ctx"
  by (simp add: NewServer_def call_Session_def)

lemma TestSessionHandler_single:
  "\<exists>srv ctx.
     NewServer [Session_option (\<lambda>ctx. Inr (WithValue ctx ''key'' ''Super Secret Session ID''))] = Inr srv \<and>
     call_Session srv text_ctx = Inr ctx \<and> Value ctx ''key'' = Some ''Super Secret Session ID''"
  by (simp add: NewServer_def Session_option_def call_Session_def chain_Session_def
        WithValue_def Value_def)

lemma TestSessionHandler_nested:
  "\<exists>srv ctx.
     NewServer [Session_option (\<lambda>ctx. Inr ctx),
                Session_option (\<lambda>ctx. Inr (WithValue ctx ''key'' ''Super Secret Session ID''))] = Inr srv \<and>
     call_Session srv text_ctx = Inr ctx \<and> Value ctx ''key'' = Some ''Super Secret Session ID''"
  by (simp add: NewServer_def Session_option_def call_Session_def chain_Session_def
        WithValue_def Value_def)

section \<open>The claims\<close>

subsection \<open>Null values\<close>

text \<open>
  C1, as amended. \<open>Column.Write\<close> tests \<open>src == nil\<close> only after it has called
  the codec: \<open>typed.Value.Set(src)\<close> and then the encoder of the column's format.
  For a \<open>nil\<close> value, a live context and a column whose OID has a registered
  codec: an error of \<open>Set\<close> or of the encoder is returned and nothing is
  appended; when \<open>Set\<close> accepts \<open>nil\<close> and the encoder returns no bytes for it,
  exactly the length \<open>-1:i32\<close> is appended and no value bytes, and a one-column
  row written with \<open>nil\<close> is handed to \<open>End\<close> as a DataRow with count 1 and the
  \<open>-1:i32\<close> length prefix.
\<close>

theorem Column_Write_nil:
  assumes "Err ctx = None" and "TypeInfo ctx = Some ci"
    and "DataTypeForOID ci (Oid column) = Some typed"
  shows "(\<forall>e. Value_Set typed GoNil = Inl e \<longrightarrow>
            Column_Write column ctx writer GoNil = (Some e, writer)) \<and>
         (\<forall>v e. Value_Set typed GoNil = Inr v \<and> Encoder typed (Format column) v = Inl e \<longrightarrow>
            Column_Write column ctx writer GoNil = (Some e, writer)) \<and>
         (\<forall>v. Value_Set typed GoNil = Inr v \<and> Encoder typed (Format column) v = Inr [] \<longrightarrow>
            Column_Write column ctx writer GoNil =
              (None, writer\<lparr>frame := frame writer @ be32 (- 1)\<rparr>) \<and>
            Columns_Write [column] ctx writer [GoNil] =
              End (writer\<lparr>frame_type := ServerDataRow, frame := be16 1 @ be32 (- 1)\<rparr>))"
  using assms
  by (simp add: Column_Write_def Columns_Write_def Start_def AddInt16_def AddInt32_def
        AddBytes_def Let_def)

text \<open>
  The three cases at the column of \<open>TestServerNULLValues\<close>: the text codec (the
  second DataRow of the test is \<open>D\<close>, length 10, count 1, length prefix
  \<open>FF FF FF FF\<close>), a codec whose \<open>Set\<close> rejects \<open>nil\<close>, and one whose encoder
  fails.
\<close>

theorem Column_Write_nil_witness:
  "Err text_ctx = None \<and>
   DataTypeForOID (the (TypeInfo text_ctx)) (Oid name_column) = Some text_codec \<and>
   Value_Set text_codec GoNil = Inr None \<and>
   Encoder text_codec (Format name_column) None = Inr [] \<and>
   Column_Write name_column text_ctx empty_writer GoNil =
     (None, empty_writer\<lparr>frame := [255, 255, 255, 255]\<rparr>) \<and>
   Columns_Write [name_column] text_ctx empty_writer [GoNil] =
     (None, empty_writer\<lparr>frame_type := ServerDataRow,
              stream := [68, 0, 0, 0, 10, 0, 1, 255, 255, 255, 255]\<rparr>) \<and>
   Err strict_ctx = None \<and>
   DataTypeForOID (the (TypeInfo strict_ctx)) (Oid name_column) = Some strict_codec \<and>
   Value_Set strict_codec GoNil = Inl (CodecError ''cannot convert to Text'') \<and>
   Column_Write name_column strict_ctx empty_writer GoNil =
     (Some (CodecError ''cannot convert to Text''), empty_writer) \<and>
   Err unencoded_ctx = None \<and>
   DataTypeForOID (the (TypeInfo unencoded_ctx)) (Oid name_column) = Some unencoded_codec \<and>
   Value_Set unencoded_codec GoNil = Inr None \<and>
   Encoder unencoded_codec (Format name_column) None = Inl (CodecError ''no encoder for the format'') \<and>
   Column_Write name_column unencoded_ctx empty_writer GoNil =
     (Some (CodecError ''no encoder for the format''), empty_writer)"
proof -
  have t: "Err text_ctx = None" "TypeInfo text_ctx = Some (the (TypeInfo text_ctx))"
    "DataTypeForOID (the (TypeInfo text_ctx)) (Oid name_column) = Some text_codec"
    by (simp_all add: text_ctx_def name_column_def DataTypeForOID_def)
  have tc: "Value_Set text_codec GoNil = Inr None"
    "Encoder text_codec (Format name_column) None = Inr []"
    by (simp_all add: text_codec_def)
  have s: "Err strict_ctx = None" "TypeInfo strict_ctx = Some (the (TypeInfo strict_ctx))"
    "DataTypeForOID (the (TypeInfo strict_ctx)) (Oid name_column) = Some strict_codec"
    by (simp_all add: strict_ctx_def name_column_def DataTypeForOID_def)
  have sc: "Value_Set strict_codec GoNil = Inl (CodecError ''cannot convert to Text'')"
    by (simp add: strict_codec_def)
  have u: "Err unencoded_ctx = None"
    "TypeInfo unencoded_ctx = Some (the (TypeInfo unencoded_ctx))"
    "DataTypeForOID (the (TypeInfo unencoded_ctx)) (Oid name_column) = Some unencoded_codec"
    by (simp_all add: unencoded_ctx_def text_ctx_def name_column_def DataTypeForOID_def)
  have uc: "Value_Set unencoded_codec GoNil = Inr None"
    "Encoder unencoded_codec (Format name_column) None = Inl (CodecError ''no encoder for the format'')"
    by (simp_all add: unencoded_codec_def text_codec_def)
  have w: "frame empty_writer = []" "stream empty_writer = []" "stream_err empty_writer = None"
    by (simp_all add: empty_writer_def)
  note on_text = Column_Write_nil [OF t, of empty_writer]
  note on_strict = Column_Write_nil [OF s, of empty_writer]
  note on_unencoded = Column_Write_nil [OF u, of empty_writer]
  from on_text tc have a1: "Column_Write name_column text_ctx empty_writer GoNil =
      (None, empty_writer\<lparr>frame := frame empty_writer @ be32 (- 1)\<rparr>)"
    and a2: "Columns_Write [name_column] text_ctx empty_writer [GoNil] =
      End (empty_writer\<lparr>frame_type := ServerDataRow, frame := be16 1 @ be32 (- 1)\<rparr>)"
    by blast+
  from on_strict sc have a3: "Column_Write name_column strict_ctx empty_writer GoNil =
      (Some (CodecError ''cannot convert to Text''), empty_writer)"
    by blast
  from on_unencoded uc have a4: "Column_Write name_column unencoded_ctx empty_writer GoNil =
      (Some (CodecError ''no encoder for the format''), empty_writer)"
    by blast
  from a1 w have b1: "Column_Write name_column text_ctx empty_writer GoNil =
     (None, empty_writer\<lparr>frame := [255, 255, 255, 255]\<rparr>)"
    by (simp add: be32_minus_one)
  from a2 w have b2: "Columns_Write [name_column] text_ctx empty_writer [GoNil] =
     (None, empty_writer\<lparr>frame_type := ServerDataRow,
              stream := [68, 0, 0, 0, 10, 0, 1, 255, 255, 255, 255]\<rparr>)"
    by (simp add: End_def DataRow_null_bytes empty_writer_def)
  from t s u tc sc uc b1 b2 a3 a4 show ?thesis
    by simp
qed

text \<open>
  The spec's own wording ("regardless of codec, the codec is not invoked") fails:
  the OID 25 has a registered codec in both contexts and the context is live, yet
  with the codec that rejects \<open>nil\<close> no length is written and the codec's error
  is returned, so the result for \<open>nil\<close> depends on the codec.
\<close>

theorem Column_Write_nil_codec_invoked:
  "Err strict_ctx = None \<and>
   DataTypeForOID (the (TypeInfo strict_ctx)) (Oid name_column) = Some strict_codec \<and>
   Column_Write name_column strict_ctx empty_writer GoNil =
     (Some (CodecError ''cannot convert to Text''), empty_writer) \<and>
   Column_Write name_column strict_ctx empty_writer GoNil \<noteq>
     Column_Write name_column text_ctx empty_writer GoNil"
  by (simp add: Column_Write_def strict_ctx_def text_ctx_def strict_codec_def text_codec_def
        name_column_def DataTypeForOID_def AddInt32_def AddBytes_def Let_def)

subsection \<open>Data rows\<close>

text \<open>
  C2. \<open>Columns.Write\<close> with a number of values other than the number of columns
  returns the "unexpected columns" error and leaves the writer as it was: no
  message is started, none is emitted. Whenever \<open>Columns.Write\<close> succeeds, the
  stream has grown by exactly one DataRow message whose payload starts with the
  count \<open>int16(len(columns))\<close>; whenever it fails, with whatever error, the stream
  is unchanged. It does succeed when there is one value for each column, each
  value is one that \<open>Column.Write\<close> accepts for its column, and the stream works.
  (The count field is the 16-bit conversion of the column count, the count itself
  up to 32767 columns.)
\<close>

theorem Columns_Write_count:
  "(length srcs \<noteq> length columns \<longrightarrow>
      Columns_Write columns ctx writer srcs =
        (Some (UnexpectedColumns (length columns) (length srcs)), writer)) \<and>
   (\<forall>writer'. Columns_Write columns ctx writer srcs = (None, writer') \<longrightarrow>
      (\<exists>fields. stream writer' =
         stream writer @ message ServerDataRow (be16 (of_nat (length columns)) @ fields))) \<and>
   (\<forall>err writer'. Columns_Write columns ctx writer srcs = (Some err, writer') \<longrightarrow>
      stream writer' = stream writer) \<and>
   (list_all2 (\<lambda>column src. fst (Column_Write column ctx writer src) = None) columns srcs \<and>
    stream_err writer = None \<longrightarrow>
      fst (Columns_Write columns ctx writer srcs) = None)"
proof (intro conjI allI impI)
  assume "length srcs \<noteq> length columns"
  then show "Columns_Write columns ctx writer srcs =
        (Some (UnexpectedColumns (length columns) (length srcs)), writer)"
    by (rule Columns_Write_mismatch)
next
  fix writer'
  assume "Columns_Write columns ctx writer srcs = (None, writer')"
  from Columns_Write_stream [OF this]
  show "\<exists>fields. stream writer' =
         stream writer @ message ServerDataRow (be16 (of_nat (length columns)) @ fields)"
    by simp
next
  fix err writer'
  assume "Columns_Write columns ctx writer srcs = (Some err, writer')"
  from Columns_Write_stream [OF this]
  show "stream writer' = stream writer"
    by simp
next
  assume "list_all2 (\<lambda>column src. fst (Column_Write column ctx writer src) = None) columns srcs \<and>
    stream_err writer = None"
  then show "fst (Columns_Write columns ctx writer srcs) = None"
    by (simp add: Columns_Write_success)
qed

text \<open>
  On the column of \<open>TestServerNULLValues\<close>: no value for one column, the row
  \<open>("John")\<close>, and a row whose value the codec rejects.
\<close>

theorem Columns_Write_count_witness:
  "length ([] :: any_value list) \<noteq> length [name_column] \<and>
   Columns_Write [name_column] text_ctx empty_writer [] = (Some (UnexpectedColumns 1 0), empty_writer) \<and>
   list_all2 (\<lambda>column src. fst (Column_Write column text_ctx empty_writer src) = None)
     [name_column] [GoString ''John''] \<and>
   stream_err empty_writer = None \<and>
   fst (Columns_Write [name_column] text_ctx empty_writer [GoString ''John'']) = None \<and>
   (\<exists>fields. stream (snd (Columns_Write [name_column] text_ctx empty_writer [GoString ''John''])) =
      stream empty_writer @ message ServerDataRow (be16 1 @ fields)) \<and>
   fst (Columns_Write [name_column] strict_ctx empty_writer [GoNil]) \<noteq> None \<and>
   stream (snd (Columns_Write [name_column] strict_ctx empty_writer [GoNil])) = stream empty_writer"
proof -
  have a: "length ([] :: any_value list) \<noteq> length [name_column]"
    by simp
  have b: "Columns_Write [name_column] text_ctx empty_writer [] =
             (Some (UnexpectedColumns 1 0), empty_writer)"
    using Columns_Write_count [of "[]" "[name_column]" text_ctx empty_writer] by simp
  have c: "\<exists>fields. stream (snd (Columns_Write [name_column] text_ctx empty_writer [GoString ''John''])) =
      stream empty_writer @ message ServerDataRow (be16 1 @ fields)"
    using Columns_Write_count [of "[GoString ''John'']" "[name_column]" text_ctx empty_writer,
        THEN conjunct2, THEN conjunct1, rule_format, OF Columns_Write_John]
    by (simp add: Columns_Write_John)
  have d: "stream (snd (Columns_Write [name_column] strict_ctx empty_writer [GoNil])) = stream empty_writer"
    using Columns_Write_count [of "[GoNil]" "[name_column]" strict_ctx empty_writer,
        THEN conjunct2, THEN conjunct2, THEN conjunct1, rule_format, OF Columns_Write_strict_nil]
    by (simp add: Columns_Write_strict_nil)
  have e: "list_all2 (\<lambda>column src. fst (Column_Write column text_ctx empty_writer src) = None)
     [name_column] [GoString ''John'']"
    by (simp add: Column_Write_def text_ctx_def name_column_def text_codec_def DataTypeForOID_def
        Let_def)
  have f: "stream_err empty_writer = None"
    by (simp add: empty_writer_def)
  have g: "fst (Columns_Write [name_column] text_ctx empty_writer [GoString ''John'']) = None"
    using Columns_Write_count [of "[GoString ''John'']" "[name_column]" text_ctx empty_writer,
        THEN conjunct2, THEN conjunct2, THEN conjunct2] e f
    by blast
  from a b c d e f g show ?thesis
    by (simp add: Columns_Write_strict_nil)
qed

subsection \<open>Row descriptions\<close>

text \<open>
  C4, as amended. \<open>Column.Define\<close> always writes \<open>-1\<close> into the \<open>type_mod\<close> field
  (\<open>writer.AddInt32(-1)\<close>, under a TODO on type modifiers): the entry it appends
  is the layout of the spec with \<open>type_mod = -1\<close>, and the column's
  \<open>TypeModifier\<close> has no influence on it.
\<close>

theorem Column_Define_type_mod:
  "Column_Define column ctx writer =
     writer\<lparr>frame := frame writer @ row_description_entry column (- 1)\<rparr> \<and>
   Column_Define (column\<lparr>TypeModifier := m\<rparr>) ctx writer = Column_Define column ctx writer"
  by (simp add: Column_Define_eq row_description_entry_def)

text \<open>
  The spec's own wording ("unless explicitly provided") fails: a column with the
  type modifier 5 is described with \<open>type_mod = -1\<close>, not 5.
\<close>

theorem Column_Define_type_mod_ignored:
  "frame (Column_Define (name_column\<lparr>TypeModifier := 5\<rparr>) text_ctx empty_writer) =
     row_description_entry name_column (- 1) \<and>
   frame (Column_Define (name_column\<lparr>TypeModifier := 5\<rparr>) text_ctx empty_writer) \<noteq>
     row_description_entry name_column 5"
  by (simp add: Column_Define_eq row_description_entry_def empty_writer_def name_column_def
        be32_minus_one be32_five)

text \<open>
  C5. For a non-empty column set, \<open>Columns.Define\<close> hands \<open>End\<close> one message of type
  RowDescription whose payload is \<open>count:i16\<close> followed, for each column in order,
  by \<open>name\0 table:i32 attr:i16 oid:i32 width:i16 type_mod:i32 format:i16\<close>; on a
  working stream it returns no error and the stream has grown by exactly that
  message.
\<close>

theorem Columns_Define_RowDescription:
  assumes "columns \<noteq> []"
  shows "Columns_Define columns ctx writer =
           End (writer\<lparr>frame_type := ServerRowDescription,
                  frame := be16 (of_nat (length columns)) @
                           concat (map (\<lambda>column. row_description_entry column (- 1)) columns)\<rparr>) \<and>
         (stream_err writer = None \<longrightarrow>
            fst (Columns_Define columns ctx writer) = None \<and>
            stream (snd (Columns_Define columns ctx writer)) =
              stream writer @
              message ServerRowDescription
                (be16 (of_nat (length columns)) @
                 concat (map (\<lambda>column. row_description_entry column (- 1)) columns)))"
  by (simp add: Columns_Define_End [OF assms] End_ok)

text \<open>The RowDescription of \<open>TestServerNULLValues\<close>, byte by byte.\<close>

theorem Columns_Define_RowDescription_witness:
  "[name_column] \<noteq> [] \<and> stream_err empty_writer = None \<and>
   fst (Columns_Define [name_column] text_ctx empty_writer) = None \<and>
   stream (snd (Columns_Define [name_column] text_ctx empty_writer)) =
     [84, 0, 0, 0, 29, 0, 1, 110, 97, 109, 101, 0, 0, 0, 0, 0, 0, 0, 0, 0, 0, 25, 1, 0,
      255, 255, 255, 255, 0, 0]"
proof -
  have a: "[name_column] \<noteq> []"
    by simp
  have b: "stream_err empty_writer = None" "stream empty_writer = []"
    by (simp_all add: empty_writer_def)
  from Columns_Define_RowDescription [OF a, of text_ctx empty_writer, THEN conjunct2] a b
  show ?thesis
    by (simp add: RowDescription_name_bytes)
qed

text \<open>
  C9. \<open>Columns.Define\<close> on an empty column set returns \<open>nil\<close> and leaves the writer
  as it was: no message is started and nothing reaches the stream.
\<close>

theorem Columns_Define_empty:
  "Columns_Define [] ctx writer = (None, writer)"
  by (simp add: Columns_Define_def)

subsection \<open>Errors of Column.Write\<close>

text \<open>
  C8. When the connection info of the context has no data type for the column's
  OID, \<open>Column.Write\<close> fails and leaves the writer as it was: no length and no
  value bytes are appended. On a live context the error is the "unknown data
  type" error; on a cancelled one it is the context's error, returned first.
\<close>

theorem Column_Write_unknown_oid:
  assumes "TypeInfo ctx = Some ci" and "DataTypeForOID ci (Oid column) = None"
  shows "Column_Write column ctx writer src =
           (Some (case Err ctx of None \<Rightarrow> UnknownDataType | Some e \<Rightarrow> e), writer)"
  using assms by (simp add: Column_Write_def split: option.splits)

text \<open>A column of the OID 16, which the registry of \<open>text_ctx\<close> does not hold.\<close>

theorem Column_Write_unknown_oid_witness:
  "TypeInfo text_ctx = Some (the (TypeInfo text_ctx)) \<and>
   DataTypeForOID (the (TypeInfo text_ctx)) (Oid (name_column\<lparr>Oid := 16\<rparr>)) = None \<and>
   Column_Write (name_column\<lparr>Oid := 16\<rparr>) text_ctx empty_writer (GoBool True) =
     (Some UnknownDataType, empty_writer)"
proof -
  have a: "TypeInfo text_ctx = Some (the (TypeInfo text_ctx))"
    by (simp add: text_ctx_def)
  have b: "DataTypeForOID (the (TypeInfo text_ctx)) (Oid (name_column\<lparr>Oid := 16\<rparr>)) = None"
    by (simp add: text_ctx_def DataTypeForOID_def)
  have c: "Err text_ctx = None"
    by (simp add: text_ctx_def)
  from Column_Write_unknown_oid [OF a b, of empty_writer "GoBool True"] a b c
  show ?thesis by simp
qed

text \<open>
  C10. On a context that is already cancelled (\<open>ctx.Err()\<close> is not \<open>nil\<close>),
  \<open>Column.Write\<close> returns that error and leaves the writer as it was, whatever
  connection info the context carries: neither the registry nor a codec has a
  say.
\<close>

theorem Column_Write_cancelled:
  assumes "Err ctx = Some e"
  shows "Column_Write column ctx writer src = (Some e, writer) \<and>
         Column_Write column (ctx\<lparr>TypeInfo := ti\<rparr>) writer src = (Some e, writer)"
  using assms by (simp add: Column_Write_def)

theorem Column_Write_cancelled_witness:
  "Err cancelled_ctx = Some Canceled \<and>
   Column_Write name_column cancelled_ctx empty_writer (GoString ''John'') =
     (Some Canceled, empty_writer) \<and>
   Column_Write name_column (cancelled_ctx\<lparr>TypeInfo := None\<rparr>) empty_writer (GoString ''John'') =
     (Some Canceled, empty_writer)"
proof -
  have e: "Err cancelled_ctx = Some Canceled"
    by (simp add: cancelled_ctx_def)
  from Column_Write_cancelled [OF e, of name_column empty_writer "GoString ''John''" None] e
  show ?thesis by simp
qed

subsection \<open>Server options\<close>




text \<open>
  C7. For session handlers \<open>f1, ..., fn\<close> given to \<open>NewServer\<close> as \<open>Session\<close>
  options, the server's session operation is their sequential composition: each
  handler receives the context the previous one returned, and the last context
  is the result (an error of a handler ends the chain and is the result).
\<close>

theorem Session_options_compose:
  "\<exists>srv. NewServer (map Session_option fs) = Inr srv \<and>
         (\<forall>ctx. call_Session srv ctx = compose_handlers fs ctx)"
proof -
  let ?srv0 = "\<lparr>Parse = None, Session = Some (\<lambda>ctx. Inr ctx)\<rparr> :: 'a Server"
  have "NewServer (map Session_option fs) =
          Inr (?srv0\<lparr>Session := Some (foldl chain_Session (\<lambda>ctx. Inr ctx) fs)\<rparr>)"
    unfolding NewServer_def by (rule apply_Session_options) simp
  moreover have "call_Session (?srv0\<lparr>Session := Some (foldl chain_Session (\<lambda>ctx. Inr ctx) fs)\<rparr>) ctx =
          compose_handlers fs ctx" for ctx
    by (simp add: call_Session_def chain_compose)
  ultimately show ?thesis by blast
qed

end
